theory Spec2Isabelle
  imports Main "HOL-Library.Monad_Syntax"
begin

section \<open>The logging module of ices (src/log.c)\<close>

text \<open>
  The module keeps its state in two globals: the fields of \<open>ices_config\<close> it reads and
  writes (\<open>base_directory\<close>, \<open>daemon\<close>, \<open>verbose\<close>, \<open>logfile\<close>) and the static buffer
  \<open>lasterror\<close>. Everything else it does is a call into libc or into the helpers of
  util.c. The embedding passes the two globals explicitly, records every external call
  in a trace, in program order and with its arguments, and takes the results of the
  calls whose outcome the operating system decides from a record of answers.
\<close>

subsection \<open>Build configuration\<close>

text \<open>
  The preprocessor symbols the file branches on, and \<open>BUFSIZE\<close>, which definitions.h
  defines and log.c only uses: they are parameters of every function below.
\<close>

record build =
  REDIRECT_LOGGING :: bool
  HAVE_VSNPRINTF :: bool
  HAVE_SETLINEBUF :: bool
  BUFSIZE :: nat

definition LOG_FILENAME_LEN :: nat where
  "LOG_FILENAME_LEN = 1024"

definition ERR_BUFF_LEN :: nat where
  "ERR_BUFF_LEN = 1024"

subsection \<open>Streams, external calls and their answers\<close>

text \<open>
  A \<open>FILE *\<close> is one of the three standard streams or a stream that fopen or popen
  returned; the latter is identified with the descriptor it owns. A null pointer is
  \<open>None\<close> of \<open>FILE option\<close>.
\<close>

datatype FILE = Stdin | Stdout | Stderr | Fp nat

fun fileno :: "FILE \<Rightarrow> nat" where
  "fileno Stdin = 0"
| "fileno Stdout = 1"
| "fileno Stderr = 2"
| "fileno (Fp n) = n"

text \<open>
  One constructor for each external function log.c calls. \<open>Fprintf\<close> and \<open>Printf\<close>
  carry the text that reaches the stream, that is the format with its argument filled in.

  Modelled from the spec: \<open>ices_util_fclose\<close> is defined in util.c, which is not among
  the sources; the specification describes it as the generic helper that closes any
  handle safely. \<open>Util_fclose\<close> is a call of it: it receives the stream by value, so the
  globals of log.c are as they were when it returns.
\<close>

datatype event =
    Fopen string string
  | Popen string string
  | Freopen string string FILE
  | Fflush FILE
  | Fprintf FILE string
  | Printf string
  | Setlinebuf FILE
  | Fclose FILE
  | Pclose FILE
  | Util_fclose FILE
  | Dup2 nat nat
  | Fstat nat

text \<open>
  The answers of the operating system: the stream fopen and popen return (\<open>None\<close> for a
  null pointer), whether freopen succeeds (it then returns the stream it was given), the
  value of dup2 (-1 on failure), the outcome of fstat (\<open>None\<close> for -1, otherwise whether
  \<open>S_ISFIFO\<close> holds of the mode), and the text \<open>ices_util_strerror\<close> renders for errno
  (the helper is defined in util.c, which is not among the sources). An answer depends on
  the arguments of the call only.
\<close>

record os =
  fopen_result :: "string \<Rightarrow> string \<Rightarrow> FILE option"
  popen_result :: "string \<Rightarrow> string \<Rightarrow> FILE option"
  freopen_ok :: "string \<Rightarrow> string \<Rightarrow> FILE \<Rightarrow> bool"
  dup2_result :: "nat \<Rightarrow> nat \<Rightarrow> int"
  fstat_result :: "nat \<Rightarrow> bool option"
  ices_util_strerror :: string

subsection \<open>Program state\<close>

record ices_config_t =
  base_directory :: "string option"
  daemon :: bool
  verbose :: bool
  logfile :: "FILE option"

record state =
  ices_config :: ices_config_t
  lasterror :: string
  trace :: "event list"

definition emit :: "event \<Rightarrow> state \<Rightarrow> state" where
  "emit e s = s\<lparr>trace := trace s @ [e]\<rparr>"

definition set_logfile :: "FILE option \<Rightarrow> state \<Rightarrow> state" where
  "set_logfile fp s = s\<lparr>ices_config := (ices_config s)\<lparr>logfile := fp\<rparr>\<rparr>"

subsection \<open>Formatting\<close>

text \<open>
  The only conversion in the format strings of log.c is \<open>%s\<close>; \<open>sprintf\<close> fills the
  string arguments in, in order, and copies every other character.
\<close>

fun sprintf :: "string \<Rightarrow> string list \<Rightarrow> string" where
  "sprintf [] args = []"
| "sprintf [c] args = [c]"
| "sprintf (c # d # fmt) args =
     (if c = CHR ''%'' \<and> d = CHR ''s''
      then (case args of [] \<Rightarrow> sprintf fmt [] | a # as \<Rightarrow> a @ sprintf fmt as)
      else c # sprintf (d # fmt) args)"

text \<open>
  \<open>snprintf(dst, len, ...)\<close>: at most \<open>len - 1\<close> characters of the text and a
  terminator are stored; nothing is stored when \<open>len\<close> is 0.
\<close>

definition snprintf :: "string \<Rightarrow> nat \<Rightarrow> string \<Rightarrow> string" where
  "snprintf dst len text = (if len = 0 then dst else take (len - 1) text)"

text \<open>
  Each variadic function starts by formatting into \<open>char buff[BUFSIZE]\<close>, with vsnprintf
  where the platform has it and with vsprintf otherwise. The \<open>text\<close> is the format with
  the variadic arguments filled in. vsnprintf truncates; vsprintf writes past the end of
  \<open>buff\<close> when the text and its terminator do not fit, which is undefined behaviour and
  \<open>None\<close> here.
\<close>

definition format_buff :: "build \<Rightarrow> string \<Rightarrow> string option" where
  "format_buff cfg text =
     (if BUFSIZE cfg = 0 then None
      else if HAVE_VSNPRINTF cfg then Some (take (BUFSIZE cfg - 1) text)
      else if length text < BUFSIZE cfg then Some text
      else None)"

subsection \<open>Last error\<close>

text \<open>\<open>strncpy(lasterror, buff, BUFSIZE)\<close> after the formatting.\<close>

definition ices_log_error :: "build \<Rightarrow> string \<Rightarrow> state \<Rightarrow> state option" where
  "ices_log_error cfg text s =
     do {
       buff \<leftarrow> format_buff cfg text;
       Some (s\<lparr>lasterror := take (BUFSIZE cfg) buff\<rparr>)
     }"

definition ices_log_get_error :: "state \<Rightarrow> string" where
  "ices_log_get_error s = lasterror s"

subsection \<open>The name of the log file\<close>

text \<open>
  \<open>filename\<close> is the content of the caller's buffer on entry; the result is the return
  value, the content of the buffer on exit and the state.
\<close>

definition ices_get_logfile_name ::
  "build \<Rightarrow> string \<Rightarrow> nat \<Rightarrow> state \<Rightarrow> (int \<times> string \<times> state) option" where
  "ices_get_logfile_name cfg filename len s =
     (case base_directory (ices_config s) of
        None \<Rightarrow>
          do {
            s' \<leftarrow> ices_log_error cfg ''Base directory is invalid'' s;
            Some (0, filename, s')
          }
      | Some dir \<Rightarrow>
          if length dir > 1016
          then do {
            s' \<leftarrow> ices_log_error cfg ''Base directory is invalid'' s;
            Some (0, filename, s')
          }
          else Some (1, snprintf filename len (sprintf ''%s/ices.log'' [dir]), s))"

subsection \<open>Writing a line\<close>

text \<open>
  \<open>ices_log_string\<close>: with REDIRECT_LOGGING the line is printed on stdout and nothing
  else happens. Otherwise it goes to the log file when there is one, followed by a flush
  unless the stream was made line buffered, and to stdout unless the process is a daemon.
\<close>

definition ices_log_string :: "build \<Rightarrow> string \<Rightarrow> string \<Rightarrow> state \<Rightarrow> state" where
  "ices_log_string cfg format string s =
     (if REDIRECT_LOGGING cfg then emit (Printf (sprintf format [string])) s
      else
        let s1 =
          (case logfile (ices_config s) of
             None \<Rightarrow> s
           | Some fp \<Rightarrow>
               let s' = emit (Fprintf fp (sprintf format [string])) s
               in if HAVE_SETLINEBUF cfg then s' else emit (Fflush fp) s')
        in if \<not> daemon (ices_config s1)
           then emit (Fprintf Stdout (sprintf format [string])) s1
           else s1)"

definition ices_log_debug :: "build \<Rightarrow> string \<Rightarrow> state \<Rightarrow> state option" where
  "ices_log_debug cfg text s =
     (if \<not> verbose (ices_config s) then Some s
      else do {
        buff \<leftarrow> format_buff cfg text;
        Some (ices_log_string cfg ''DEBUG: %s\<newline>'' buff s)
      })"

definition ices_log :: "build \<Rightarrow> string \<Rightarrow> state \<Rightarrow> state option" where
  "ices_log cfg text s =
     do {
       buff \<leftarrow> format_buff cfg text;
       Some (ices_log_string cfg ''%s\<newline>'' buff s)
     }"

definition ices_log_error_output :: "build \<Rightarrow> string \<Rightarrow> state \<Rightarrow> state option" where
  "ices_log_error_output cfg text s =
     do {
       buff \<leftarrow> format_buff cfg text;
       s1 \<leftarrow> ices_log_error cfg (sprintf ''%s'' [buff]) s;
       Some (ices_log_string cfg ''%s\<newline>'' buff s1)
     }"

subsection \<open>Opening and closing the log file\<close>

text \<open>
  The local array \<open>namespace\<close> is not initialised; its content on entry is taken to be
  empty. It is read only after \<open>ices_get_logfile_name\<close> has returned 1.
\<close>

definition ices_log_open_logfile :: "build \<Rightarrow> os \<Rightarrow> state \<Rightarrow> (int \<times> state) option" where
  "ices_log_open_logfile cfg sys s =
     do {
       (r, namespace, s1) \<leftarrow> ices_get_logfile_name cfg [] LOG_FILENAME_LEN s;
       if r \<noteq> 1 then Some (0, s1)
       else
         let s2 = emit (Fopen namespace ''a'') s1
         in case fopen_result sys namespace ''a'' of
              None \<Rightarrow>
                do {
                  s3 \<leftarrow> ices_log_error cfg
                    (sprintf ''Error while opening %s, error: %s''
                       [namespace, ices_util_strerror sys]) s2;
                  Some (0, s3)
                }
            | Some logfp \<Rightarrow>
                let s3 = set_logfile (Some logfp) s2
                in Some (1, if HAVE_SETLINEBUF cfg then emit (Setlinebuf logfp) s3 else s3)
     }"

definition ices_log_close_logfile :: "state \<Rightarrow> int \<times> state" where
  "ices_log_close_logfile s =
     (case logfile (ices_config s) of
        None \<Rightarrow> (1, s)
      | Some fp \<Rightarrow> (1, emit (Util_fclose fp) s))"

definition ices_log_close_pipe :: "state \<Rightarrow> int \<times> state" where
  "ices_log_close_pipe s =
     (let s1 = (case logfile (ices_config s) of
                  None \<Rightarrow> s
                | Some fp \<Rightarrow> emit (Pclose fp) s)
      in (1, set_logfile None s1))"

definition ices_log_reopen_logfile :: "build \<Rightarrow> os \<Rightarrow> state \<Rightarrow> (int \<times> state) option" where
  "ices_log_reopen_logfile cfg sys s =
     (let (r, s1) = ices_log_close_logfile s
      in ices_log_open_logfile cfg sys s1)"

subsection \<open>Redirecting the output through tee\<close>

text \<open>
  Without REDIRECT_LOGGING the body is compiled out and the function returns 1. The
  command is formatted with sprintf into an array of \<open>LOG_FILENAME_LEN + 9\<close> characters,
  which the name of at most \<open>LOG_FILENAME_LEN - 1\<close> characters always fits. (In the
  source the declaration of that array lacks its semicolon; the body is read as it is
  meant.) Neither branch on a failed dup2 returns: control falls through to the
  statements after it.
\<close>

definition ices_setup_output_redirects ::
  "build \<Rightarrow> os \<Rightarrow> state \<Rightarrow> (int \<times> state) option" where
  "ices_setup_output_redirects cfg sys s =
     (if \<not> REDIRECT_LOGGING cfg then Some (1, s)
      else do {
        (r, namespace, s1) \<leftarrow> ices_get_logfile_name cfg [] LOG_FILENAME_LEN s;
        if r \<noteq> 1 then Some (0, s1)
        else
          let cmd = sprintf (''tee -a '%s'' @ [CHR 0x27]) [namespace];
              s2 = emit (Popen cmd ''w'') s1
          in case popen_result sys cmd ''w'' of
               None \<Rightarrow>
                 do {
                   s3 \<leftarrow> ices_log cfg ''can't create pipe'' s2;
                   Some (0, s3)
                 }
             | Some pipe \<Rightarrow>
                 do {
                   let pno = fileno pipe;
                   let s3 = emit (Dup2 pno (fileno Stdout)) s2;
                   let res1 = dup2_result sys pno (fileno Stdout);
                   s4 \<leftarrow> (if res1 = - 1
                          then ices_log cfg ''can't redirect stdout to pipe''
                                 (emit (Pclose pipe) s3)
                          else Some s3);
                   let s5 = emit (Dup2 pno (fileno Stderr)) s4;
                   let res2 = dup2_result sys pno (fileno Stderr);
                   s6 \<leftarrow> (if res2 = - 1
                          then ices_log cfg ''can't redirect stderr to pipe''
                                 (emit (Freopen ''/dev/tty'' ''w'' Stdout)
                                    (emit (Pclose pipe) s5))
                          else Some s5);
                   let (r', s7) = ices_log_close_logfile s6;
                   Some (1, set_logfile (Some pipe) s7)
                 }
      })"

subsection \<open>Daemon mode, start and shutdown\<close>

text \<open>
  \<open>ices_log_daemonize\<close> as the file has it, with the conditional compilation around its
  two halves commented out: after the log file has been installed on stdout, stdout and
  stderr are reopened on /dev/null and the log file is reopened. The \<open>return 0\<close> of this
  void function is a plain return. The error text comes from
  \<open>ices_util_strerror(errno, buf, ERR_BUFF_LEN)\<close>, as in \<open>ices_log_open_logfile\<close>.
\<close>

definition ices_log_daemonize :: "build \<Rightarrow> os \<Rightarrow> state \<Rightarrow> state option" where
  "ices_log_daemonize cfg sys s =
     do {
       let s0 = emit (Freopen ''/dev/null'' ''r'' Stdin) s;
       (r, namespace, s1) \<leftarrow> ices_get_logfile_name cfg [] LOG_FILENAME_LEN s0;
       if r \<noteq> 1 then Some s1
       else do {
         let s2 = emit (Freopen namespace ''a'' Stdout) (emit (Fflush Stdout) s1);
         let logfp = (if freopen_ok sys namespace ''a'' Stdout then Some Stdout else None);
         let s3 =
           (case logfile (ices_config s2) of
              None \<Rightarrow> s2
            | Some old \<Rightarrow>
                let s' = emit (Fstat (fileno old)) s2
                in (case fstat_result sys (fileno old) of
                      None \<Rightarrow> s'
                    | Some fifo \<Rightarrow>
                        set_logfile None
                          (if fifo then emit (Pclose old) s' else emit (Fclose old) s')));
         case logfp of
           None \<Rightarrow>
             ices_log_error cfg
               (sprintf ''Error while opening %s, error: %s''
                  [namespace, ices_util_strerror sys]) s3
         | Some fp \<Rightarrow>
             do {
               let s4 = emit (Dup2 (fileno fp) (fileno Stderr)) s3;
               let res = dup2_result sys (fileno fp) (fileno Stderr);
               s5 \<leftarrow> (if res = - 1
                      then ices_log cfg ''can't redirect stderr to pipe'' s4
                      else Some s4);
               let s6 = set_logfile (Some fp) s5;
               let s7 = emit (Freopen ''/dev/null'' ''w'' Stderr)
                          (emit (Freopen ''/dev/null'' ''w'' Stdout) s6);
               (r', s8) \<leftarrow> ices_log_reopen_logfile cfg sys s7;
               Some s8
             }
       }
     }"


definition ices_log_shutdown :: "build \<Rightarrow> state \<Rightarrow> state option" where
  "ices_log_shutdown cfg s =
     (let (r, s1) = ices_log_close_logfile s
      in if r = 0 then ices_log cfg (sprintf ''%s'' [ices_log_get_error s1]) s1
         else Some s1)"

subsection \<open>Notions the statements use\<close>

text \<open>The guard of \<open>ices_get_logfile_name\<close>: a null pointer, or more than 1016 characters.\<close>

definition base_directory_invalid :: "state \<Rightarrow> bool" where
  "base_directory_invalid s =
     (case base_directory (ices_config s) of
        None \<Rightarrow> True
      | Some dir \<Rightarrow> 1016 < length dir)"

text \<open>The formatting into \<open>buff\<close> is defined: the buffer exists and is not overrun.\<close>

definition fits :: "build \<Rightarrow> string \<Rightarrow> bool" where
  "fits cfg text = (0 < BUFSIZE cfg \<and> (HAVE_VSNPRINTF cfg \<or> length text < BUFSIZE cfg))"

text \<open>The text an event puts on a stream, if it is a write.\<close>

fun output_text :: "event \<Rightarrow> string option" where
  "output_text (Fprintf fp text) = Some text"
| "output_text (Printf text) = Some text"
| "output_text e = None"

text \<open>
  The words of the specification for reopen: close, then openFile on the state close
  left, whose result is the result.
\<close>

definition close_then_openFile :: "build \<Rightarrow> os \<Rightarrow> state \<Rightarrow> (int \<times> state) option" where
  "close_then_openFile cfg sys s = ices_log_open_logfile cfg sys (snd (ices_log_close_logfile s))"

subsection \<open>Concrete builds, answers and states\<close>

definition plain_build :: build where
  "plain_build =
     \<lparr>REDIRECT_LOGGING = False, HAVE_VSNPRINTF = True, HAVE_SETLINEBUF = True,
      BUFSIZE = 1024\<rparr>"

definition redirect_build :: build where
  "redirect_build =
     \<lparr>REDIRECT_LOGGING = True, HAVE_VSNPRINTF = True, HAVE_SETLINEBUF = True,
      BUFSIZE = 1024\<rparr>"

definition vsprintf_build :: build where
  "vsprintf_build =
     \<lparr>REDIRECT_LOGGING = False, HAVE_VSNPRINTF = False, HAVE_SETLINEBUF = False,
      BUFSIZE = 16\<rparr>"

text \<open>
  Every call succeeds: fopen returns descriptor 3, popen descriptor 4, and fstat reports
  a FIFO for descriptor 4 only.
\<close>

definition os_ok :: os where
  "os_ok =
     \<lparr>fopen_result = (\<lambda>path mode. Some (Fp 3)),
      popen_result = (\<lambda>cmd mode. Some (Fp 4)),
      freopen_ok = (\<lambda>path mode fp. True),
      dup2_result = (\<lambda>oldfd newfd. int newfd),
      fstat_result = (\<lambda>fd. Some (fd = 4)),
      ices_util_strerror = ''Permission denied''\<rparr>"

text \<open>As \<open>os_ok\<close>, but every dup2 fails.\<close>

definition os_dup2_fails :: os where
  "os_dup2_fails = os_ok\<lparr>dup2_result := (\<lambda>oldfd newfd. - 1)\<rparr>"

text \<open>The state at start: no log file, no error, nothing called yet.\<close>

definition start :: "string option \<Rightarrow> state" where
  "start dir =
     \<lparr>ices_config =
        \<lparr>base_directory = dir, daemon = False, verbose = False, logfile = None\<rparr>,
      lasterror = [], trace = []\<rparr>"

text \<open>A state whose log file is the regular file fopen returned.\<close>

definition file_open :: state where
  "file_open =
     \<lparr>ices_config =
        \<lparr>base_directory = Some ''/tmp/icestest'', daemon = False, verbose = False,
         logfile = Some (Fp 3)\<rparr>,
      lasterror = [],
      trace = [Fopen ''/tmp/icestest/ices.log'' ''a'', Setlinebuf (Fp 3)]\<rparr>"

text \<open>A state whose log file is the pipe to tee that popen returned.\<close>

definition pipe_open :: state where
  "pipe_open =
     \<lparr>ices_config =
        \<lparr>base_directory = Some ''/tmp/icestest'', daemon = False, verbose = False,
         logfile = Some (Fp 4)\<rparr>,
      lasterror = [],
      trace = [Popen (''tee -a '/tmp/icestest/ices.log'' @ [CHR 0x27]) ''w'',
               Dup2 4 1, Dup2 4 2]\<rparr>"

text \<open>A directory one character longer than the guard admits, and the longest it admits.\<close>

definition long_directory :: string where
  "long_directory = replicate 1017 CHR ''d''"

definition max_directory :: string where
  "max_directory = replicate 1016 CHR ''d''"

text \<open>The same state with verbose mode on, and with an error already stored.\<close>

definition verbose_file_open :: state where
  "verbose_file_open = file_open\<lparr>ices_config := (ices_config file_open)\<lparr>verbose := True\<rparr>\<rparr>"

definition file_open_after_error :: state where
  "file_open_after_error = verbose_file_open\<lparr>lasterror := ''Base directory is invalid''\<rparr>"



section \<open>Properties\<close>

subsection \<open>Formatting and the last error\<close>

lemma length_long_directory: "length long_directory = 1017"
  by (simp add: long_directory_def)

lemma length_max_directory: "length max_directory = 1016"
  by (simp add: max_directory_def)

lemma format_buff_fits: "length text < BUFSIZE cfg \<Longrightarrow> format_buff cfg text = Some text"
  by (simp add: format_buff_def)

lemma format_buff_total: "fits cfg text \<Longrightarrow> \<exists>buff. format_buff cfg text = Some buff"
  by (auto simp: format_buff_def fits_def)


lemma ices_log_error_fits:
  "length text < BUFSIZE cfg \<Longrightarrow> ices_log_error cfg text s = Some (s\<lparr>lasterror := text\<rparr>)"
  by (simp add: ices_log_error_def format_buff_fits)

subsection \<open>The error path of \<open>ices_get_logfile_name\<close>\<close>

lemma ices_get_logfile_name_invalid:
  assumes "base_directory_invalid s" and "25 < BUFSIZE cfg"
  shows "ices_get_logfile_name cfg filename len s =
           Some (0, filename, s\<lparr>lasterror := ''Base directory is invalid''\<rparr>)"
proof (cases "base_directory (ices_config s)")
  case None
  with assms(2) show ?thesis
    by (simp add: ices_get_logfile_name_def ices_log_error_fits)
next
  case (Some dir)
  with assms have "1016 < length dir"
    by (simp add: base_directory_invalid_def)
  with Some assms(2) show ?thesis
    by (simp add: ices_get_logfile_name_def ices_log_error_fits)
qed

lemma ices_get_logfile_name_invalid_result:
  assumes "base_directory_invalid s"
    and "ices_get_logfile_name cfg filename len s = Some (r, filename', s')"
  shows "r = 0 \<and> filename' = filename"
  using assms
  by (auto simp: ices_get_logfile_name_def base_directory_invalid_def ices_log_error_def
      split: option.splits if_splits bind_splits)

text \<open>
  C10. When the base directory is a null pointer or longer than 1016 characters,
  \<open>ices_get_logfile_name\<close> returns 0 and the caller's buffer holds what it held before:
  whenever the call returns, that is its result, and it does return when the message fits
  the error buffer (\<open>BUFSIZE\<close> above 25).
\<close>

theorem ices_get_logfile_name_keeps_buffer:
  "base_directory_invalid s \<Longrightarrow>
     (25 < BUFSIZE cfg \<longrightarrow>
        (\<exists>s'. ices_get_logfile_name cfg filename len s = Some (0, filename, s'))) \<and>
     (\<forall>r filename' s'.
        ices_get_logfile_name cfg filename len s = Some (r, filename', s') \<longrightarrow>
        r = 0 \<and> filename' = filename)"
  using ices_get_logfile_name_invalid ices_get_logfile_name_invalid_result by blast

theorem ices_get_logfile_name_keeps_buffer_witness:
  "ices_get_logfile_name plain_build ''previous content'' LOG_FILENAME_LEN (start None) =
     Some (0, ''previous content'',
           (start None)\<lparr>lasterror := ''Base directory is invalid''\<rparr>) \<and>
   ices_get_logfile_name plain_build ''previous content'' LOG_FILENAME_LEN
       (start (Some long_directory)) =
     Some (0, ''previous content'',
           (start (Some long_directory))\<lparr>lasterror := ''Base directory is invalid''\<rparr>)"
proof -
  have absent: "base_directory_invalid (start None)"
    by (simp add: base_directory_invalid_def start_def)
  have long: "base_directory_invalid (start (Some long_directory))"
    by (simp add: base_directory_invalid_def start_def length_long_directory)
  have room: "25 < BUFSIZE plain_build"
    by (simp add: plain_build_def)
  from ices_get_logfile_name_keeps_buffer
         [OF absent, of plain_build "''previous content''" LOG_FILENAME_LEN] room
  obtain s1 where s1:
    "ices_get_logfile_name plain_build ''previous content'' LOG_FILENAME_LEN (start None) =
       Some (0, ''previous content'', s1)"
    by blast
  from ices_get_logfile_name_keeps_buffer
         [OF long, of plain_build "''previous content''" LOG_FILENAME_LEN] room
  obtain s2 where s2:
    "ices_get_logfile_name plain_build ''previous content'' LOG_FILENAME_LEN
       (start (Some long_directory)) = Some (0, ''previous content'', s2)"
    by blast
  from s1 have "s1 = (start None)\<lparr>lasterror := ''Base directory is invalid''\<rparr>"
    by (simp add: ices_get_logfile_name_def start_def ices_log_error_def format_buff_def
        plain_build_def)
  moreover from s2
  have "s2 = (start (Some long_directory))\<lparr>lasterror := ''Base directory is invalid''\<rparr>"
    by (simp add: ices_get_logfile_name_def start_def ices_log_error_def format_buff_def
        plain_build_def length_long_directory)
  ultimately show ?thesis using s1 s2 by simp
qed

text \<open>
  A directory of at most 1014 characters gives the name the format describes: it fits the
  1024 characters of \<open>namespace\<close> with its terminator.
\<close>

lemma ices_get_logfile_name_short:
  assumes "base_directory (ices_config s) = Some dir" and "length dir \<le> 1014"
  shows "ices_get_logfile_name cfg filename LOG_FILENAME_LEN s =
           Some (1, dir @ ''/ices.log'', s)"
  using assms
  by (simp add: ices_get_logfile_name_def snprintf_def LOG_FILENAME_LEN_def)

text \<open>
  C6. The guard admits 1016 characters, but the nine characters of \<open>/ices.log\<close> and the
  terminator leave room for 1014 only. For a base directory of 1016 characters
  \<open>ices_log_open_logfile\<close> returns 1 and the path it has passed to fopen is the directory
  followed by \<open>/ices.l\<close>: snprintf has cut the name to 1023 characters.
\<close>

theorem longest_base_directory_truncates:
  "ices_log_open_logfile plain_build os_ok (start (Some max_directory)) =
     Some (1, \<lparr>ices_config =
                 \<lparr>base_directory = Some max_directory, daemon = False, verbose = False,
                  logfile = Some (Fp 3)\<rparr>,
               lasterror = [],
               trace = [Fopen (max_directory @ ''/ices.l'') ''a'', Setlinebuf (Fp 3)]\<rparr>)"
  by (simp add: ices_log_open_logfile_def ices_get_logfile_name_def
      snprintf_def LOG_FILENAME_LEN_def length_max_directory
      start_def plain_build_def os_ok_def emit_def set_logfile_def)

subsection \<open>Opening with an invalid base directory\<close>

lemma ices_log_open_logfile_invalid:
  assumes "base_directory_invalid s" and "25 < BUFSIZE cfg"
  shows "ices_log_open_logfile cfg sys s =
           Some (0, s\<lparr>lasterror := ''Base directory is invalid''\<rparr>)"
  by (simp add: ices_log_open_logfile_def ices_get_logfile_name_invalid [OF assms])

lemma ices_setup_output_redirects_invalid:
  assumes "base_directory_invalid s" and "25 < BUFSIZE cfg" and "REDIRECT_LOGGING cfg"
  shows "ices_setup_output_redirects cfg sys s =
           Some (0, s\<lparr>lasterror := ''Base directory is invalid''\<rparr>)"
  using assms(3)
  by (simp add: ices_setup_output_redirects_def ices_get_logfile_name_invalid [OF assms(1,2)])

lemma ices_setup_output_redirects_stub:
  "\<not> REDIRECT_LOGGING cfg \<Longrightarrow> ices_setup_output_redirects cfg sys s = Some (1, s)"
  by (simp add: ices_setup_output_redirects_def)

text \<open>
  C1, as amended. When the base directory is a null pointer or longer than 1016
  characters (and \<open>BUFSIZE\<close> is above 25, so that the message fits),
  \<open>ices_log_open_logfile\<close> returns 0 and \<open>ices_log_get_error\<close> then returns
  \<open>Base directory is invalid\<close>; in a build with REDIRECT_LOGGING the same holds of
  \<open>ices_setup_output_redirects\<close>, which without REDIRECT_LOGGING has no body and
  returns 1 with the state untouched.
\<close>

theorem invalid_base_directory_fails:
  "base_directory_invalid s \<Longrightarrow> 25 < BUFSIZE cfg \<Longrightarrow>
     (\<exists>s'. ices_log_open_logfile cfg sys s = Some (0, s') \<and>
           ices_log_get_error s' = ''Base directory is invalid'') \<and>
     (REDIRECT_LOGGING cfg \<longrightarrow>
        (\<exists>s'. ices_setup_output_redirects cfg sys s = Some (0, s') \<and>
              ices_log_get_error s' = ''Base directory is invalid'')) \<and>
     (\<not> REDIRECT_LOGGING cfg \<longrightarrow> ices_setup_output_redirects cfg sys s = Some (1, s))"
  by (simp add: ices_log_open_logfile_invalid ices_setup_output_redirects_invalid
      ices_setup_output_redirects_stub ices_log_get_error_def)

theorem invalid_base_directory_fails_witness:
  "ices_log_open_logfile redirect_build os_ok (start None) =
     Some (0, (start None)\<lparr>lasterror := ''Base directory is invalid''\<rparr>) \<and>
   ices_setup_output_redirects redirect_build os_ok (start (Some long_directory)) =
     Some (0, (start (Some long_directory))\<lparr>lasterror := ''Base directory is invalid''\<rparr>) \<and>
   ices_setup_output_redirects plain_build os_ok (start (Some long_directory)) =
     Some (1, start (Some long_directory))"
proof -
  have absent: "base_directory_invalid (start None)"
    by (simp add: base_directory_invalid_def start_def)
  have long: "base_directory_invalid (start (Some long_directory))"
    by (simp add: base_directory_invalid_def start_def length_long_directory)
  have room: "25 < BUFSIZE redirect_build" "25 < BUFSIZE plain_build"
    by (simp_all add: redirect_build_def plain_build_def)
  have flag: "REDIRECT_LOGGING redirect_build" "\<not> REDIRECT_LOGGING plain_build"
    by (simp_all add: redirect_build_def plain_build_def)
  from invalid_base_directory_fails [OF absent room(1), of os_ok]
  obtain s1 where s1: "ices_log_open_logfile redirect_build os_ok (start None) = Some (0, s1)"
    by blast
  from invalid_base_directory_fails [OF long room(1), of os_ok] flag(1)
  obtain s2 where s2:
    "ices_setup_output_redirects redirect_build os_ok (start (Some long_directory)) =
       Some (0, s2)"
    by blast
  from invalid_base_directory_fails [OF long room(2), of os_ok] flag(2)
  have s3: "ices_setup_output_redirects plain_build os_ok (start (Some long_directory)) =
              Some (1, start (Some long_directory))"
    by blast
  from s1 have "s1 = (start None)\<lparr>lasterror := ''Base directory is invalid''\<rparr>"
    by (simp add: ices_log_open_logfile_invalid [OF absent room(1)])
  moreover from s2
  have "s2 = (start (Some long_directory))\<lparr>lasterror := ''Base directory is invalid''\<rparr>"
    by (simp add: ices_setup_output_redirects_invalid [OF long room(1) flag(1)])
  ultimately show ?thesis using s1 s2 s3 by simp
qed

text \<open>
  C1, as stated, fails. An empty base directory is not a null pointer and passes the
  guard: \<open>ices_log_open_logfile\<close> opens \<open>/ices.log\<close>, returns 1 and stores no error.
  And in a build without REDIRECT_LOGGING \<open>ices_setup_output_redirects\<close> returns 1
  although the base directory is a null pointer.
\<close>

theorem empty_base_directory_is_accepted:
  "ices_log_open_logfile plain_build os_ok (start (Some [])) =
     Some (1, \<lparr>ices_config =
                 \<lparr>base_directory = Some [], daemon = False, verbose = False,
                  logfile = Some (Fp 3)\<rparr>,
               lasterror = [],
               trace = [Fopen ''/ices.log'' ''a'', Setlinebuf (Fp 3)]\<rparr>) \<and>
   ices_setup_output_redirects plain_build os_ok (start None) = Some (1, start None)"
  by (simp add: ices_log_open_logfile_def ices_get_logfile_name_def
      ices_setup_output_redirects_def snprintf_def LOG_FILENAME_LEN_def
      start_def plain_build_def os_ok_def emit_def set_logfile_def)

subsection \<open>Closing\<close>

lemma ices_log_close_logfile_open:
  "logfile (ices_config s) = Some fp \<Longrightarrow>
     ices_log_close_logfile s = (1, emit (Util_fclose fp) s)"
  by (simp add: ices_log_close_logfile_def)

lemma ices_log_close_logfile_closed:
  "logfile (ices_config s) = None \<Longrightarrow> ices_log_close_logfile s = (1, s)"
  by (simp add: ices_log_close_logfile_def)

lemma ices_log_close_logfile_keeps_config:
  "ices_config (snd (ices_log_close_logfile s)) = ices_config s"
  by (simp add: ices_log_close_logfile_def emit_def split: option.splits)

lemma ices_log_close_logfile_no_pclose:
  "Pclose fp \<in> set (trace (snd (ices_log_close_logfile s))) \<Longrightarrow> Pclose fp \<in> set (trace s)"
  by (simp add: ices_log_close_logfile_def emit_def split: option.splits)

text \<open>
  The two places of the file that do tell a pipe from a file, and forget the stream
  afterwards: \<open>ices_log_close_pipe\<close>, which nothing calls, and the block of
  \<open>ices_log_daemonize\<close> that closes the previous log file.
\<close>

lemma ices_log_close_pipe_open:
  "logfile (ices_config s) = Some fp \<Longrightarrow>
     ices_log_close_pipe s = (1, set_logfile None (emit (Pclose fp) s))"
  by (simp add: ices_log_close_pipe_def)

lemma ices_log_daemonize_dispatches:
  "map_option trace (ices_log_daemonize plain_build os_ok pipe_open) =
     Some (trace pipe_open @
       [Freopen ''/dev/null'' ''r'' Stdin, Fflush Stdout,
        Freopen ''/tmp/icestest/ices.log'' ''a'' Stdout, Fstat 4, Pclose (Fp 4), Dup2 1 2,
        Freopen ''/dev/null'' ''w'' Stdout, Freopen ''/dev/null'' ''w'' Stderr,
        Util_fclose Stdout, Fopen ''/tmp/icestest/ices.log'' ''a'', Setlinebuf (Fp 3)])"
  by (simp add: ices_log_daemonize_def ices_get_logfile_name_def
      ices_log_reopen_logfile_def ices_log_open_logfile_def ices_log_close_logfile_def
      snprintf_def LOG_FILENAME_LEN_def
      pipe_open_def plain_build_def os_ok_def emit_def set_logfile_def)

text \<open>
  C2. In a build with REDIRECT_LOGGING \<open>ices_setup_output_redirects\<close> leaves the pipe
  that popen returned as the log file. Closing it, with \<open>ices_log_close_logfile\<close> or at
  shutdown, hands the pipe to \<open>ices_util_fclose\<close>, as it would a regular file: pclose is
  not called.
\<close>

theorem close_logfile_on_pipe:
  "ices_setup_output_redirects redirect_build os_ok (start (Some ''/tmp/icestest'')) =
     Some (1, pipe_open) \<and>
   ices_log_close_logfile pipe_open =
     (1, pipe_open\<lparr>trace := trace pipe_open @ [Util_fclose (Fp 4)]\<rparr>) \<and>
   ices_log_shutdown redirect_build pipe_open =
     Some (pipe_open\<lparr>trace := trace pipe_open @ [Util_fclose (Fp 4)]\<rparr>)"
  by (simp add: ices_setup_output_redirects_def ices_get_logfile_name_def
      ices_log_close_logfile_def ices_log_shutdown_def
      snprintf_def LOG_FILENAME_LEN_def
      start_def pipe_open_def redirect_build_def os_ok_def emit_def set_logfile_def)

text \<open>
  C4. \<open>ices_log_close_logfile\<close> on an open log file calls \<open>ices_util_fclose\<close> and
  returns 1, but \<open>ices_config.logfile\<close> still holds the closed stream, and a second call
  hands the same stream to \<open>ices_util_fclose\<close> again.
\<close>

theorem close_logfile_keeps_handle:
  "ices_log_close_logfile file_open =
     (1, file_open\<lparr>trace := trace file_open @ [Util_fclose (Fp 3)]\<rparr>) \<and>
   logfile (ices_config (snd (ices_log_close_logfile file_open))) = Some (Fp 3) \<and>
   ices_log_close_logfile (snd (ices_log_close_logfile file_open)) =
     (1, file_open\<lparr>trace := trace file_open @ [Util_fclose (Fp 3), Util_fclose (Fp 3)]\<rparr>)"
  by (simp add: ices_log_close_logfile_def file_open_def emit_def)

subsection \<open>A failed redirection of stdout\<close>

lemma ices_log_fits:
  "length text < BUFSIZE cfg \<Longrightarrow>
     ices_log cfg text s = Some (ices_log_string cfg ''%s\<newline>'' text s)"
  by (simp add: ices_log_def format_buff_fits)

text \<open>
  Whatever the other answers are: when the first dup2 returns -1 the pipe is closed
  with pclose, and the function still returns 1 with the closed pipe as the log file.
\<close>

lemma ices_setup_output_redirects_stdout_failure:
  assumes redirect: "REDIRECT_LOGGING cfg"
    and dir: "base_directory (ices_config s) = Some dir" "length dir \<le> 1016"
    and pipe: "popen_result sys
                 (sprintf (''tee -a '%s'' @ [CHR 0x27]) [take 1023 (dir @ ''/ices.log'')])
                 ''w'' = Some pipe"
    and dup2: "dup2_result sys (fileno pipe) (fileno Stdout) = - 1"
    and room: "29 < BUFSIZE cfg"
  shows "\<exists>s'. ices_setup_output_redirects cfg sys s = Some (1, s') \<and>
              logfile (ices_config s') = Some pipe \<and> Pclose pipe \<in> set (trace s')"
  using assms
  by (simp add: ices_setup_output_redirects_def ices_get_logfile_name_def
      ices_log_fits ices_log_string_def ices_log_close_logfile_def
      snprintf_def LOG_FILENAME_LEN_def emit_def set_logfile_def Let_def
      split: option.splits)

text \<open>
  When both calls of dup2 succeed the pipe becomes the log file and stdout is attached to
  its descriptor: this is how a line printed on stdout reaches the log in such a build.
\<close>

lemma ices_setup_output_redirects_attaches:
  assumes redirect: "REDIRECT_LOGGING cfg"
    and dir: "base_directory (ices_config s) = Some dir" "length dir \<le> 1016"
    and pipe: "popen_result sys
                 (sprintf (''tee -a '%s'' @ [CHR 0x27]) [take 1023 (dir @ ''/ices.log'')])
                 ''w'' = Some pipe"
    and dup2: "dup2_result sys (fileno pipe) (fileno Stdout) \<noteq> - 1"
      "dup2_result sys (fileno pipe) (fileno Stderr) \<noteq> - 1"
  shows "\<exists>s'. ices_setup_output_redirects cfg sys s = Some (1, s') \<and>
              logfile (ices_config s') = Some pipe \<and>
              Dup2 (fileno pipe) (fileno Stdout) \<in> set (trace s') \<and>
              Pclose pipe \<notin> set (trace s') - set (trace s)"
  using assms
  by (simp add: ices_setup_output_redirects_def ices_get_logfile_name_def
      ices_log_close_logfile_def
      snprintf_def LOG_FILENAME_LEN_def emit_def set_logfile_def Let_def
      split: option.splits)

text \<open>
  C3. In a build with REDIRECT_LOGGING, when dup2 fails \<open>ices_setup_output_redirects\<close>
  closes the pipe with pclose and logs a line, but it does not return there: it goes on to
  call dup2 for stderr with the descriptor of the closed pipe, installs the closed pipe as
  the log file and returns 1. Nothing is stored in \<open>lasterror\<close>.
\<close>

theorem failed_stdout_redirect_returns_1:
  "ices_setup_output_redirects redirect_build os_dup2_fails (start (Some ''/tmp/icestest'')) =
     Some (1, \<lparr>ices_config =
                 \<lparr>base_directory = Some ''/tmp/icestest'', daemon = False, verbose = False,
                  logfile = Some (Fp 4)\<rparr>,
               lasterror = [],
               trace = [Popen (''tee -a '/tmp/icestest/ices.log'' @ [CHR 0x27]) ''w'',
                        Dup2 4 1, Pclose (Fp 4),
                        Printf ''can't redirect stdout to pipe\<newline>'',
                        Dup2 4 2, Pclose (Fp 4), Freopen ''/dev/tty'' ''w'' Stdout,
                        Printf ''can't redirect stderr to pipe\<newline>'']\<rparr>)"
  by (simp add: ices_setup_output_redirects_def ices_get_logfile_name_def
      ices_log_close_logfile_def ices_log_def ices_log_string_def format_buff_def
      snprintf_def LOG_FILENAME_LEN_def
      start_def redirect_build_def os_dup2_fails_def os_ok_def emit_def set_logfile_def)

subsection \<open>Reopening\<close>

text \<open>
  C5. From every state, and whatever the answers of the operating system,
  \<open>ices_log_reopen_logfile\<close> is close followed by openFile: the same result, be it the
  return value and the final state or the undefined behaviour of an overrun buffer.
\<close>

theorem reopen_is_close_then_openFile:
  "ices_log_reopen_logfile cfg sys s = close_then_openFile cfg sys s"
  by (simp add: ices_log_reopen_logfile_def close_then_openFile_def split_beta)

theorem reopen_is_close_then_openFile_witness:
  "ices_log_reopen_logfile plain_build os_ok file_open =
     Some (1, file_open
                \<lparr>trace := trace file_open @
                   [Util_fclose (Fp 3), Fopen ''/tmp/icestest/ices.log'' ''a'',
                    Setlinebuf (Fp 3)]\<rparr>) \<and>
   close_then_openFile plain_build os_ok file_open =
     Some (1, file_open
                \<lparr>trace := trace file_open @
                   [Util_fclose (Fp 3), Fopen ''/tmp/icestest/ices.log'' ''a'',
                    Setlinebuf (Fp 3)]\<rparr>)"
proof -
  have "close_then_openFile plain_build os_ok file_open =
     Some (1, file_open
                \<lparr>trace := trace file_open @
                   [Util_fclose (Fp 3), Fopen ''/tmp/icestest/ices.log'' ''a'',
                    Setlinebuf (Fp 3)]\<rparr>)"
    by (simp add: close_then_openFile_def ices_log_close_logfile_def
        ices_log_open_logfile_def ices_get_logfile_name_def snprintf_def
        LOG_FILENAME_LEN_def file_open_def plain_build_def os_ok_def emit_def
        set_logfile_def)
  with reopen_is_close_then_openFile [of plain_build os_ok file_open] show ?thesis
    by simp
qed

subsection \<open>Writing\<close>

lemma format_buff_take:
  "format_buff cfg text = Some buff \<Longrightarrow> buff = take (BUFSIZE cfg - 1) text"
  by (auto simp: format_buff_def split: if_splits)

lemma format_buff_fits_take:
  "fits cfg text \<Longrightarrow> format_buff cfg text = Some (take (BUFSIZE cfg - 1) text)"
  by (auto simp: format_buff_def fits_def)

lemma ices_log_string_redirect:
  "REDIRECT_LOGGING cfg \<Longrightarrow>
     ices_log_string cfg format string s =
       s\<lparr>trace := trace s @ [Printf (sprintf format [string])]\<rparr>"
  by (simp add: ices_log_string_def emit_def)

lemma ices_log_string_file:
  "\<not> REDIRECT_LOGGING cfg \<Longrightarrow> logfile (ices_config s) = Some fp \<Longrightarrow>
     ices_log_string cfg format string s =
       s\<lparr>trace := trace s @ [Fprintf fp (sprintf format [string])] @
                  (if HAVE_SETLINEBUF cfg then [] else [Fflush fp]) @
                  (if daemon (ices_config s) then []
                   else [Fprintf Stdout (sprintf format [string])])\<rparr>"
  by (simp add: ices_log_string_def emit_def)

lemma ices_log_string_closed:
  "\<not> REDIRECT_LOGGING cfg \<Longrightarrow> logfile (ices_config s) = None \<Longrightarrow>
     ices_log_string cfg format string s =
       s\<lparr>trace := trace s @
                  (if daemon (ices_config s) then []
                   else [Fprintf Stdout (sprintf format [string])])\<rparr>"
  by (simp add: ices_log_string_def emit_def)

text \<open>
  What one call of \<open>ices_log_string\<close> adds to the trace: every text it writes is the
  format with the string filled in, and it writes one as soon as there is a destination.
\<close>

lemma ices_log_string_events:
  "\<exists>evs. ices_log_string cfg format string s = s\<lparr>trace := trace s @ evs\<rparr> \<and>
         (\<forall>e\<in>set evs. \<forall>line. output_text e = Some line \<longrightarrow> line = sprintf format [string]) \<and>
         (REDIRECT_LOGGING cfg \<or> logfile (ices_config s) \<noteq> None \<or> \<not> daemon (ices_config s) \<longrightarrow>
            (\<exists>e\<in>set evs. output_text e \<noteq> None))"
proof (cases "REDIRECT_LOGGING cfg")
  case True
  then show ?thesis
    by (intro exI [of _ "[Printf (sprintf format [string])]"])
      (simp add: ices_log_string_redirect)
next
  case False
  show ?thesis
  proof (cases "logfile (ices_config s)")
    case None
    with False show ?thesis
      by (intro exI [of _ "if daemon (ices_config s) then []
                           else [Fprintf Stdout (sprintf format [string])]"])
        (simp add: ices_log_string_closed)
  next
    case (Some fp)
    with False show ?thesis
      by (intro exI [of _ "[Fprintf fp (sprintf format [string])] @
                  (if HAVE_SETLINEBUF cfg then [] else [Fflush fp]) @
                  (if daemon (ices_config s) then []
                   else [Fprintf Stdout (sprintf format [string])])"])
        (simp add: ices_log_string_file)
  qed
qed

lemma lasterror_ices_log_string:
  "lasterror (ices_log_string cfg format string s) = lasterror s"
  by (simp add: ices_log_string_def emit_def Let_def split: option.splits)


lemmas example_defs =
  plain_build_def redirect_build_def vsprintf_build_def os_ok_def start_def file_open_def
  pipe_open_def verbose_file_open_def file_open_after_error_def

lemmas run_defs =
  ices_log_def ices_log_debug_def ices_log_error_output_def ices_log_error_def
  ices_log_string_def format_buff_def emit_def

text \<open>
  C7. With verbose mode off \<open>ices_log_debug\<close> returns the state it was given, trace
  included, and does so before any formatting, so also for a text that would overrun the
  buffer. With verbose mode on (and a text the buffer can take) it only appends to the
  trace; every line it writes is \<open>DEBUG: \<close>, the formatted message and a newline, and it
  writes one when there is a destination (stdout under REDIRECT_LOGGING, otherwise the log
  file or, outside daemon mode, the console).
\<close>

theorem ices_log_debug_gate:
  "(\<not> verbose (ices_config s) \<longrightarrow> ices_log_debug cfg text s = Some s) \<and>
   (verbose (ices_config s) \<and> fits cfg text \<longrightarrow>
      (\<exists>evs. ices_log_debug cfg text s = Some (s\<lparr>trace := trace s @ evs\<rparr>) \<and>
         (\<forall>e\<in>set evs. \<forall>line. output_text e = Some line \<longrightarrow>
            line = ''DEBUG: '' @ take (BUFSIZE cfg - 1) text @ ''\<newline>'') \<and>
         (REDIRECT_LOGGING cfg \<or> logfile (ices_config s) \<noteq> None \<or> \<not> daemon (ices_config s) \<longrightarrow>
            (\<exists>e\<in>set evs. output_text e \<noteq> None))))"
proof (intro conjI impI)
  assume "\<not> verbose (ices_config s)"
  then show "ices_log_debug cfg text s = Some s"
    by (simp add: ices_log_debug_def)
next
  assume a: "verbose (ices_config s) \<and> fits cfg text"
  then have "ices_log_debug cfg text s =
      Some (ices_log_string cfg ''DEBUG: %s\<newline>'' (take (BUFSIZE cfg - 1) text) s)"
    by (simp add: ices_log_debug_def format_buff_fits_take)
  moreover have "sprintf ''DEBUG: %s\<newline>'' [take (BUFSIZE cfg - 1) text] =
      ''DEBUG: '' @ take (BUFSIZE cfg - 1) text @ ''\<newline>''"
    by simp
  ultimately show "\<exists>evs. ices_log_debug cfg text s = Some (s\<lparr>trace := trace s @ evs\<rparr>) \<and>
         (\<forall>e\<in>set evs. \<forall>line. output_text e = Some line \<longrightarrow>
            line = ''DEBUG: '' @ take (BUFSIZE cfg - 1) text @ ''\<newline>'') \<and>
         (REDIRECT_LOGGING cfg \<or> logfile (ices_config s) \<noteq> None \<or> \<not> daemon (ices_config s) \<longrightarrow>
            (\<exists>e\<in>set evs. output_text e \<noteq> None))"
    using ices_log_string_events [of cfg "''DEBUG: %s\<newline>''" "take (BUFSIZE cfg - 1) text" s]
    by simp
qed

theorem ices_log_debug_gate_witness:
  "ices_log_debug vsprintf_build ''a message of more than sixteen characters'' file_open =
     Some file_open \<and>
   ices_log_debug plain_build ''Playing song'' verbose_file_open =
     Some (verbose_file_open
             \<lparr>trace := trace verbose_file_open @
                [Fprintf (Fp 3) ''DEBUG: Playing song\<newline>'',
                 Fprintf Stdout ''DEBUG: Playing song\<newline>'']\<rparr>)"
proof -
  have quiet: "\<not> verbose (ices_config file_open)"
    by (simp add: file_open_def)
  have loud: "verbose (ices_config verbose_file_open) \<and> fits plain_build ''Playing song''"
    by (simp add: fits_def example_defs)
  from ices_log_debug_gate
         [of file_open vsprintf_build "''a message of more than sixteen characters''"] quiet
  have first: "ices_log_debug vsprintf_build ''a message of more than sixteen characters''
                 file_open = Some file_open"
    by blast
  from ices_log_debug_gate [of verbose_file_open plain_build "''Playing song''"] loud
  obtain evs where
    evs: "ices_log_debug plain_build ''Playing song'' verbose_file_open =
            Some (verbose_file_open\<lparr>trace := trace verbose_file_open @ evs\<rparr>)"
    by blast
  then have "evs = [Fprintf (Fp 3) ''DEBUG: Playing song\<newline>'',
                    Fprintf Stdout ''DEBUG: Playing song\<newline>'']"
    by (simp add: run_defs example_defs)
  with first evs show ?thesis
    by simp
qed






lemma ices_log_lasterror:
  "ices_log cfg text s = Some s' \<Longrightarrow> lasterror s' = lasterror s"
  by (auto simp: ices_log_def lasterror_ices_log_string split: bind_splits)

lemma ices_log_debug_lasterror:
  "ices_log_debug cfg text s = Some s' \<Longrightarrow> lasterror s' = lasterror s"
  by (auto simp: ices_log_debug_def lasterror_ices_log_string split: bind_splits if_splits)

lemma ices_log_total: "fits cfg text \<Longrightarrow> \<exists>s'. ices_log cfg text s = Some s'"
  using format_buff_total [of cfg "text"] by (auto simp: ices_log_def)

lemma ices_log_debug_total: "fits cfg text \<Longrightarrow> \<exists>s'. ices_log_debug cfg text s = Some s'"
  using format_buff_total [of cfg "text"] by (auto simp: ices_log_debug_def)

text \<open>
  C9. \<open>ices_log\<close> and \<open>ices_log_debug\<close> leave the last error alone: whenever either
  returns, \<open>ices_log_get_error\<close> gives what it gave before the call; and both return for
  every text the buffer can take.
\<close>

theorem logging_keeps_last_error:
  "(\<forall>s'. ices_log cfg text s = Some s' \<longrightarrow> ices_log_get_error s' = ices_log_get_error s) \<and>
   (\<forall>s'. ices_log_debug cfg text s = Some s' \<longrightarrow>
      ices_log_get_error s' = ices_log_get_error s) \<and>
   (fits cfg text \<longrightarrow>
      (\<exists>s'. ices_log cfg text s = Some s') \<and> (\<exists>s'. ices_log_debug cfg text s = Some s'))"
  by (simp add: ices_log_get_error_def ices_log_lasterror ices_log_debug_lasterror
      ices_log_total ices_log_debug_total)

theorem logging_keeps_last_error_witness:
  "ices_log plain_build ''Logfile opened'' file_open_after_error =
     Some (file_open_after_error
             \<lparr>trace := trace file_open_after_error @
                [Fprintf (Fp 3) ''Logfile opened\<newline>'',
                 Fprintf Stdout ''Logfile opened\<newline>'']\<rparr>) \<and>
   ices_log_debug plain_build ''Playing song'' file_open_after_error =
     Some (file_open_after_error
             \<lparr>trace := trace file_open_after_error @
                [Fprintf (Fp 3) ''DEBUG: Playing song\<newline>'',
                 Fprintf Stdout ''DEBUG: Playing song\<newline>'']\<rparr>) \<and>
   ices_log_get_error file_open_after_error = ''Base directory is invalid'' \<and>
   ices_log_get_error
     (file_open_after_error
        \<lparr>trace := trace file_open_after_error @
           [Fprintf (Fp 3) ''Logfile opened\<newline>'',
            Fprintf Stdout ''Logfile opened\<newline>'']\<rparr>) = ''Base directory is invalid''"
proof -
  have room: "fits plain_build ''Logfile opened''" "fits plain_build ''Playing song''"
    by (simp_all add: fits_def plain_build_def)
  from logging_keeps_last_error [of plain_build "''Logfile opened''" file_open_after_error]
    room(1)
  obtain s1 where s1: "ices_log plain_build ''Logfile opened'' file_open_after_error = Some s1"
    and e1: "ices_log_get_error s1 = ices_log_get_error file_open_after_error"
    by blast
  from logging_keeps_last_error [of plain_build "''Playing song''" file_open_after_error]
    room(2)
  obtain s2 where
    s2: "ices_log_debug plain_build ''Playing song'' file_open_after_error = Some s2"
    by blast
  from s1 have v1: "s1 = file_open_after_error
             \<lparr>trace := trace file_open_after_error @
                [Fprintf (Fp 3) ''Logfile opened\<newline>'',
                 Fprintf Stdout ''Logfile opened\<newline>'']\<rparr>"
    by (simp add: run_defs example_defs)
  from s2 have v2: "s2 = file_open_after_error
             \<lparr>trace := trace file_open_after_error @
                [Fprintf (Fp 3) ''DEBUG: Playing song\<newline>'',
                 Fprintf Stdout ''DEBUG: Playing song\<newline>'']\<rparr>"
    by (simp add: run_defs example_defs)
  have "ices_log_get_error file_open_after_error = ''Base directory is invalid''"
    by (simp add: ices_log_get_error_def example_defs)
  with s1 s2 e1 v1 v2 show ?thesis
    by simp
qed

end
